theory Spec2Isabelle
  imports Main "HOL-Library.Sublist"
begin

section \<open>The data loader of the governance scoring project (src/data_loader.py)\<close>

text \<open>
  The script has two stages and one utility:
  \<^item> \<open>get_listed_corp_codes\<close> downloads the corporation directory, unzips and parses it and
    keeps the entries that have a six-character stock code;
  \<^item> \<open>get_kospi_company_info\<close> looks every entry up and keeps those whose \<open>corp_cls\<close> is
    \<open>Y\<close>;
  \<^item> \<open>save_df_to_csv\<close> writes a table to disk.

  Everything the script does to the outside is explicit here. What is printed, written and
  slept is collected in a \<open>world\<close> that every function takes and returns. What the
  network and the disk answer is read from an \<open>env\<close> of oracles, and what the libraries
  compute from data (unzipping, XML parsing, CSV serialisation) from a \<open>lib\<close> of functions.
  A call returns a pair of its outcome and the new world; the outcome is \<open>Inl e\<close> when the
  call raises \<open>e\<close> and \<open>Inr v\<close> when it returns \<open>v\<close>.

  A Python \<open>str\<close> is modelled as a HOL \<open>string\<close>, one list element for one code
  point, so that \<open>length\<close> is Python's \<open>len\<close>.

  As the file stands, the dictionary literal of \<open>get_kospi_company_info\<close> lacks the comma
  after the \<open>'ir_url'\<close> entry (line 147), so Python rejects the module when it is loaded.
  The model reads the literal with that comma, the only reading under which the file is a
  program.
\<close>

subsection \<open>Exceptions\<close>

text \<open>
  The classes of \<open>Exception\<close> that the handlers of the script tell apart, each with the
  text that \<open>str(e)\<close> gives. \<open>RequestException\<close> stands for
  \<open>requests.exceptions.RequestException\<close> and its subclasses (\<open>HTTPError\<close>,
  \<open>ConnectionError\<close>, \<open>ChunkedEncodingError\<close>, ...), \<open>OSError\<close> for \<open>OSError\<close> and
  its subclasses (\<open>FileNotFoundError\<close>, \<open>PermissionError\<close>, ...). Exceptions outside
  \<open>Exception\<close> (\<open>KeyboardInterrupt\<close>, \<open>SystemExit\<close>) are not modelled.
\<close>

datatype exn =
    RequestException string
  | BadZipFile string
  | ParseError string
  | KeyError string
  | OSError string
  | OtherException string

fun str_exn :: "exn \<Rightarrow> string" where
  "str_exn (RequestException m) = m"
| "str_exn (BadZipFile m) = m"
| "str_exn (ParseError m) = m"
| "str_exn (KeyError m) = m"
| "str_exn (OSError m) = m"
| "str_exn (OtherException m) = m"

fun is_RequestException :: "exn \<Rightarrow> bool" where
  "is_RequestException (RequestException _) = True"
| "is_RequestException _ = False"

fun is_BadZipFile :: "exn \<Rightarrow> bool" where
  "is_BadZipFile (BadZipFile _) = True"
| "is_BadZipFile _ = False"

fun is_ParseError :: "exn \<Rightarrow> bool" where
  "is_ParseError (ParseError _) = True"
| "is_ParseError _ = False"

subsection \<open>Tables, dictionaries and the XML document\<close>

text \<open>
  A dictionary literal with string keys is an association list in the order of the
  literal; a value is a \<open>str\<close> or \<open>None\<close>. A \<open>DataFrame\<close> built from a list of
  dictionaries is the list of its rows; \<open>pd.DataFrame()\<close> is the empty list.
\<close>

type_synonym pydict = "(string \<times> string option) list"
type_synonym dataframe = "pydict list"

definition dict_get :: "pydict \<Rightarrow> string \<Rightarrow> string option" where
  \<comment> \<open>\<open>d.get(k)\<close>: \<open>None\<close> for a missing key.\<close>
  "dict_get d k = (case map_of d k of None \<Rightarrow> None | Some v \<Rightarrow> v)"

definition getitem :: "pydict \<Rightarrow> string \<Rightarrow> exn + string option" where
  \<comment> \<open>\<open>row[k]\<close>: raises \<open>KeyError\<close> for a missing column.\<close>
  "getitem row k = (case map_of row k of None \<Rightarrow> Inl (KeyError k) | Some v \<Rightarrow> Inr v)"

definition fmt :: "string option \<Rightarrow> string" where
  \<comment> \<open>A value inside an f-string.\<close>
  "fmt v = (case v of None \<Rightarrow> ''None'' | Some s \<Rightarrow> s)"

function str_nat :: "nat \<Rightarrow> string" where
  "str_nat n =
     (if n < 10 then [''0123456789'' ! n]
      else str_nat (n div 10) @ [''0123456789'' ! (n mod 10)])"
  by pat_completeness auto
termination
  by (relation "measure id") auto

declare str_nat.simps [simp del]

text \<open>
  An element of the parsed document: its tag, its text and its children.
  \<open>findall\<close> and \<open>findtext\<close> are ElementTree's, for a plain tag name: the children
  with that tag in document order, and the text of the first such child (the empty string
  when that child has no text, \<open>None\<close> when there is no such child).
\<close>

datatype xml = Element (el_tag: string) (el_text: "string option") (el_children: "xml list")

definition findall :: "xml \<Rightarrow> string \<Rightarrow> xml list" where
  "findall el t = filter (\<lambda>c. el_tag c = t) (el_children el)"

definition findtext :: "xml \<Rightarrow> string \<Rightarrow> string option" where
  "findtext el t =
     (case findall el t of
        [] \<Rightarrow> None
      | c # _ \<Rightarrow> (case el_text c of None \<Rightarrow> Some [] | Some s \<Rightarrow> Some s))"

subsection \<open>Paths\<close>

text \<open>\<open>os.path.join\<close> of two components and \<open>os.path.dirname\<close>, as in \<open>posixpath\<close>.\<close>

definition path_join :: "string \<Rightarrow> string \<Rightarrow> string" where
  "path_join a b =
     (if b \<noteq> [] \<and> hd b = CHR ''/'' then b
      else if a = [] \<or> last a = CHR ''/'' then a @ b
      else a @ ''/'' @ b)"

definition rstrip_sep :: "string \<Rightarrow> string" where
  "rstrip_sep p = rev (dropWhile (\<lambda>c. c = CHR ''/'') (rev p))"

definition dirname :: "string \<Rightarrow> string" where
  "dirname p =
     (let head = rev (dropWhile (\<lambda>c. c \<noteq> CHR ''/'') (rev p))
      in if head \<noteq> [] \<and> head \<noteq> replicate (length head) (CHR ''/'')
         then rstrip_sep head else head)"

text \<open>
  The names under which a path and its leading parts name a directory: the path itself and
  every non-empty part of it that ends before a separator.
\<close>

fun prefixes :: "string \<Rightarrow> string \<Rightarrow> string list" where
  "prefixes acc [] = [acc]"
| "prefixes acc (c # cs) = (if c = CHR ''/'' then [acc] else []) @ prefixes (acc @ [c]) cs"

definition dir_chain :: "string \<Rightarrow> string list" where
  "dir_chain p = filter (\<lambda>q. q \<noteq> []) (prefixes [] p)"

definition BASE_DATA_DIR :: string where
  "BASE_DATA_DIR = path_join ''data'' ''raw''"

subsection \<open>The world, the environment and the libraries\<close>

record world =
  stdout :: "string list"  \<comment> \<open>the lines printed, oldest first\<close>
  files :: "string \<rightharpoonup> string"  \<comment> \<open>the content of the files written\<close>
  dirs :: "string set"  \<comment> \<open>the paths that name a directory\<close>
  sleeps :: "nat list"  \<comment> \<open>the pauses made by \<open>time.sleep\<close>, in milliseconds\<close>

definition py_print :: "string \<Rightarrow> world \<Rightarrow> world" where
  "py_print s w = w\<lparr>stdout := stdout w @ [s]\<rparr>"

definition write_file :: "string \<Rightarrow> string \<Rightarrow> world \<Rightarrow> world" where
  "write_file p c w = w\<lparr>files := (files w)(p \<mapsto> c)\<rparr>"

definition time_sleep :: "nat \<Rightarrow> world \<Rightarrow> world" where
  "time_sleep ms w = w\<lparr>sleeps := sleeps w @ [ms]\<rparr>"

definition mkdirs :: "string \<Rightarrow> world \<Rightarrow> world" where
  \<comment> \<open>What \<open>os.makedirs(p, exist_ok=True)\<close> leaves when it does not raise: \<open>p\<close> and
      every leading part of it is a directory.\<close>
  "mkdirs p w = w\<lparr>dirs := dirs w \<union> set (dir_chain p)\<rparr>"

definition is_dir :: "world \<Rightarrow> string \<Rightarrow> bool" where
  \<comment> \<open>The current directory (the empty \<open>dirname\<close>) and the root are always there.\<close>
  "is_dir w d = (d = replicate (length d) (CHR ''/'') \<or> d \<in> dirs w)"

text \<open>
  The answer to \<open>requests.get(url, stream=True)\<close>: the status, the chunks that
  \<open>iter_content\<close> yields, and the exception it raises after them when the connection
  breaks while the body is read.
\<close>

record response =
  status_code :: nat
  chunks :: "string list"
  stream_error :: "exn option"

definition raise_for_status :: "response \<Rightarrow> exn option" where
  \<comment> \<open>\<open>HTTPError\<close>, a \<open>RequestException\<close>, for a status from 400 to 599; its text is
      shortened to the status.\<close>
  "raise_for_status r =
     (if 400 \<le> status_code r \<and> status_code r < 600
      then Some (RequestException (str_nat (status_code r) @ '' Error''))
      else None)"

record env =
  requests_get :: "string \<Rightarrow> exn + response"
    \<comment> \<open>\<open>requests.get(url, stream=True)\<close>\<close>
  mkdir_error :: "string \<Rightarrow> exn option"
    \<comment> \<open>what \<open>os.makedirs(path, exist_ok=True)\<close> raises on a non-empty path, if anything\<close>
  open_error :: "string \<Rightarrow> exn option"
    \<comment> \<open>what opening the path for writing raises, if anything, when its directory is there\<close>

record lib =
  unzip_member :: "string \<Rightarrow> string \<Rightarrow> exn + string"
    \<comment> \<open>\<open>zipfile\<close>: the bytes of a member of an archive, given the archive's bytes\<close>
  et_parse :: "string \<Rightarrow> exn + xml"
    \<comment> \<open>\<open>ElementTree\<close>: the root of a document, given its bytes\<close>
  csv_text :: "dataframe \<Rightarrow> bool \<Rightarrow> string \<times> exn option"
    \<comment> \<open>\<open>pandas\<close>: the delimited text of a table, with the row index or without; or the
        part of it that is written before serialising raises, and the exception\<close>

definition os_makedirs :: "env \<Rightarrow> string \<Rightarrow> exn option" where
  \<comment> \<open>\<open>os.makedirs(path, exist_ok=True)\<close>; \<open>mkdir('')\<close> fails with \<open>FileNotFoundError\<close>
      on every system.\<close>
  "os_makedirs e p =
     (if p = [] then Some (OSError ''[Errno 2] No such file or directory'')
      else mkdir_error e p)"

definition open_w :: "env \<Rightarrow> string \<Rightarrow> world \<Rightarrow> exn option" where
  \<comment> \<open>Opening a path for writing: \<open>FileNotFoundError\<close> when its directory is missing.\<close>
  "open_w e p w =
     (if is_dir w (dirname p) then open_error e p
      else Some (OSError ''[Errno 2] No such file or directory''))"

text \<open>The URL and the paths that the two stages compute from their arguments.\<close>

definition url_code :: "string \<Rightarrow> string" where
  "url_code api_key = ''https://opendart.fss.or.kr/api/corpCode.xml?crtfc_key='' @ api_key"

definition corp_data_path :: "string \<Rightarrow> string" where
  "corp_data_path output_dir = path_join output_dir ''dart_corp_data''"

definition xml_zip_path :: "string \<Rightarrow> string" where
  "xml_zip_path output_dir = path_join (corp_data_path output_dir) ''CORPCODE.zip''"

definition xml_path :: "string \<Rightarrow> string" where
  "xml_path output_dir = path_join (corp_data_path output_dir) ''CORPCODE.xml''"

definition listed_filepath :: "string \<Rightarrow> string" where
  \<comment> \<open>\<open>output_filepath\<close> of \<open>get_listed_corp_codes\<close>\<close>
  "listed_filepath output_dir = path_join output_dir ''listed_corp_codes.csv''"

definition kospi_filepath :: "string \<Rightarrow> string" where
  \<comment> \<open>\<open>output_filepath\<close> of \<open>get_kospi_company_info\<close>\<close>
  "kospi_filepath output_dir = path_join output_dir ''kospi_company_info.csv''"

subsection \<open>save_df_to_csv\<close>

definition to_csv ::
  "lib \<Rightarrow> env \<Rightarrow> dataframe \<Rightarrow> string \<Rightarrow> bool \<Rightarrow> world \<Rightarrow> (exn + unit) \<times> world" where
  \<comment> \<open>\<open>df.to_csv(file_path, index=index)\<close>: the file is opened, which empties it, and then
      the text is written, all of it or the part before serialising raises.\<close>
  "to_csv l e df file_path index w =
     (case open_w e file_path w of
        Some x \<Rightarrow> (Inl x, w)
      | None \<Rightarrow>
          (case csv_text l df index of
             (t, None) \<Rightarrow> (Inr (), write_file file_path t w)
           | (t, Some x) \<Rightarrow> (Inl x, write_file file_path t w)))"

definition save_df_to_csv ::
  "lib \<Rightarrow> env \<Rightarrow> dataframe \<Rightarrow> string \<Rightarrow> bool \<Rightarrow> world \<Rightarrow> (exn + unit) \<times> world" where
  "save_df_to_csv l e df file_path index w =
     (case os_makedirs e (dirname file_path) of
        Some x \<Rightarrow> (Inl x, w)
      | None \<Rightarrow>
          (case to_csv l e df file_path index (mkdirs (dirname file_path) w) of
             (Inr _, w') \<Rightarrow> (Inr (), w')
           | (Inl x, w') \<Rightarrow>
               (Inr (), py_print (''Error saving DataFrame to CSV '' @ file_path @ '': ''
                                   @ str_exn x) w')))"

subsection \<open>get_listed_corp_codes\<close>

text \<open>The dictionary of lines 101 to 106, and the loop of lines 97 to 106 with \<open>corp_list\<close>
  as the accumulator.\<close>

definition listed_record :: "xml \<Rightarrow> string option \<Rightarrow> pydict" where
  "listed_record corp stock_code =
     [(''corp_code'', findtext corp ''corp_code''),
      (''corp_name'', findtext corp ''corp_name''),
      (''corp_eng_name'', findtext corp ''corp_eng_name''),
      (''stock_code'', stock_code)]"

fun collect_listed :: "xml list \<Rightarrow> dataframe \<Rightarrow> dataframe" where
  "collect_listed [] corp_list = corp_list"
| "collect_listed (corp # rest) corp_list =
     (let stock_code = findtext corp ''stock_code''
      in if stock_code \<noteq> None \<and> stock_code \<noteq> Some [] \<and> length (the stock_code) = 6
         then collect_listed rest (corp_list @ [listed_record corp stock_code])
         else collect_listed rest corp_list)"

text \<open>
  Lines 74 to 76: the file is opened (and truncated), the chunks are appended one by one,
  and an exception of \<open>iter_content\<close> leaves what was written so far.
\<close>

fun write_chunks :: "string \<Rightarrow> string list \<Rightarrow> world \<Rightarrow> world" where
  "write_chunks p [] w = w"
| "write_chunks p (c # cs) w =
     write_chunks p cs
       (write_file p ((case files w p of None \<Rightarrow> [] | Some old \<Rightarrow> old) @ c) w)"

definition download :: "env \<Rightarrow> response \<Rightarrow> string \<Rightarrow> world \<Rightarrow> (exn + unit) \<times> world" where
  "download e r p w =
     (case open_w e p w of
        Some x \<Rightarrow> (Inl x, w)
      | None \<Rightarrow>
          (let w' = write_chunks p (chunks r) (write_file p [] w)
           in case stream_error r of Some x \<Rightarrow> (Inl x, w') | None \<Rightarrow> (Inr (), w')))"

text \<open>Lines 107 to 112: the table is built, saved and returned.\<close>

definition finish_listed ::
  "lib \<Rightarrow> env \<Rightarrow> string \<Rightarrow> xml \<Rightarrow> world \<Rightarrow> (exn + dataframe) \<times> world" where
  "finish_listed l e output_dir root w =
     (let corp_codes_df = collect_listed (findall root ''list'') [];
          output_filepath = listed_filepath output_dir
      in case save_df_to_csv l e corp_codes_df output_filepath False w of
           (Inl x, w') \<Rightarrow> (Inl x, w')
         | (Inr _, w') \<Rightarrow>
             (Inr corp_codes_df,
              py_print (''Saved '' @ str_nat (length corp_codes_df)
                         @ '' listed corporation codes to '' @ output_filepath) w'))"

text \<open>Lines 88 to 94, and then the rest. The document is read back from the disk.\<close>

definition parse_listed ::
  "lib \<Rightarrow> env \<Rightarrow> string \<Rightarrow> world \<Rightarrow> (exn + dataframe) \<times> world" where
  "parse_listed l e output_dir w =
     (case files w (xml_path output_dir) of
        None \<Rightarrow> (Inl (OSError ''[Errno 2] No such file or directory''), w)
      | Some doc \<Rightarrow>
          (case et_parse l doc of
             Inl x \<Rightarrow>
               (if is_ParseError x
                then (Inr [], py_print (''Error parsing CORPCODE.xml: '' @ str_exn x) w)
                else (Inl x, w))
           | Inr root \<Rightarrow> finish_listed l e output_dir root w))"

text \<open>
  Lines 78 to 85, and then the rest: the archive is read back from the disk, and its member
  \<open>CORPCODE.xml\<close> is written beside it. Of what the block raises, only \<open>BadZipFile\<close>
  is handled.
\<close>

definition extract_listed ::
  "lib \<Rightarrow> env \<Rightarrow> string \<Rightarrow> world \<Rightarrow> (exn + dataframe) \<times> world" where
  "extract_listed l e output_dir w =
     (let extracted =
            (case files w (xml_zip_path output_dir) of
               None \<Rightarrow> Inl (OSError ''[Errno 2] No such file or directory'')
             | Some archive \<Rightarrow>
                 (case unzip_member l archive ''CORPCODE.xml'' of
                    Inl x \<Rightarrow> Inl x
                  | Inr doc \<Rightarrow>
                      (case open_w e (xml_path output_dir) w of
                         Some x \<Rightarrow> Inl x
                       | None \<Rightarrow> Inr doc)))
      in case extracted of
           Inl x \<Rightarrow>
             (if is_BadZipFile x
              then (Inr [],
                    py_print (''Error: Downloaded file is not a valid zip file. ''
                               @ ''Check API key or response content.'') w)
              else (Inl x, w))
         | Inr doc \<Rightarrow>
             parse_listed l e output_dir
               (py_print (''CORPCODE.xml extracted to '' @ xml_path output_dir)
                  (write_file (xml_path output_dir) doc w)))"

text \<open>Lines 58 to 65, 67 to 76, and then the rest.\<close>

definition get_listed_corp_codes ::
  "lib \<Rightarrow> env \<Rightarrow> string \<Rightarrow> string \<Rightarrow> world \<Rightarrow> (exn + dataframe) \<times> world" where
  "get_listed_corp_codes l e api_key output_dir w0 =
     (let w1 = py_print ''Fetching all corporation codes from OpenDART...'' w0;
          fetched =
            (case requests_get e (url_code api_key) of
               Inl x \<Rightarrow> Inl x
             | Inr r \<Rightarrow> (case raise_for_status r of Some x \<Rightarrow> Inl x | None \<Rightarrow> Inr r))
      in case fetched of
           Inl x \<Rightarrow>
             (if is_RequestException x
              then (Inr [],
                    py_print (''Error fetching corporation codes: '' @ str_exn x) w1)
              else (Inl x, w1))
         | Inr response \<Rightarrow>
             (case os_makedirs e (corp_data_path output_dir) of
                Some x \<Rightarrow> (Inl x, w1)
              | None \<Rightarrow>
                  (case download e response (xml_zip_path output_dir)
                          (mkdirs (corp_data_path output_dir) w1) of
                     (Inl x, w2) \<Rightarrow> (Inl x, w2)
                   | (Inr _, w2) \<Rightarrow> extract_listed l e output_dir w2)))"

subsection \<open>get_kospi_company_info\<close>

text \<open>
  The client: what the \<open>n\<close>-th call of \<open>dart_reader.company\<close> answers to the code it is
  given: an exception, \<open>None\<close>, or a dictionary.
\<close>

type_synonym client = "nat \<Rightarrow> string option \<Rightarrow> exn + pydict option"

definition kospi_record :: "pydict \<Rightarrow> pydict" where
  \<comment> \<open>The dictionary of lines 140 to 150.\<close>
  "kospi_record info =
     [(''corp_name'', dict_get info ''corp_name''),
      (''corp_code'', dict_get info ''corp_code''),
      (''stock_code'', dict_get info ''stock_code''),
      (''ceo_name'', dict_get info ''ceo_nm''),
      (''industry_code'', dict_get info ''induty_code''),
      (''established_date'', dict_get info ''est_dt''),
      (''ir_url'', dict_get info ''ir_url''),
      (''corp_reg_number'', dict_get info ''jurir_no''),
      (''business_no'', dict_get info ''bizr_no'')]"

definition is_kospi :: "pydict option \<Rightarrow> bool" where
  \<comment> \<open>\<open>info and info.get('corp_cls') == 'Y'\<close>\<close>
  "is_kospi info =
     (case info of
        None \<Rightarrow> False
      | Some d \<Rightarrow> d \<noteq> [] \<and> dict_get d ''corp_cls'' = Some ''Y'')"

text \<open>
  The loop of lines 132 to 155, from the \<open>i\<close>-th call of the client on, with \<open>data\<close> as
  the accumulator. The two columns are read before the \<open>try\<close>; the pause is the last
  statement inside it.
\<close>

fun kospi_loop ::
  "client \<Rightarrow> nat \<Rightarrow> dataframe \<Rightarrow> dataframe \<Rightarrow> world \<Rightarrow> (exn + dataframe) \<times> world" where
  "kospi_loop dart_reader i [] data w = (Inr data, w)"
| "kospi_loop dart_reader i (row # rest) data w =
     (case getitem row ''corp_code'' of
        Inl x \<Rightarrow> (Inl x, w)
      | Inr corp_code \<Rightarrow>
          (case getitem row ''corp_name'' of
             Inl x \<Rightarrow> (Inl x, w)
           | Inr corp_name \<Rightarrow>
               (case dart_reader i corp_code of
                  Inr info \<Rightarrow>
                    kospi_loop dart_reader (Suc i) rest
                      (if is_kospi info then data @ [kospi_record (the info)] else data)
                      (time_sleep 700 w)
                | Inl x \<Rightarrow>
                    kospi_loop dart_reader (Suc i) rest data
                      (py_print (''Failed to fetch company info for '' @ fmt corp_name
                                  @ '' ('' @ fmt corp_code @ ''): '' @ str_exn x) w))))"

definition get_kospi_company_info ::
  "lib \<Rightarrow> env \<Rightarrow> client \<Rightarrow> dataframe \<Rightarrow> string \<Rightarrow> world \<Rightarrow> (exn + dataframe) \<times> world"
  where
  "get_kospi_company_info l e dart_reader corp_codes_df output_dir w0 =
     (let w1 = py_print ''Fetching detailed company info for KOSPI companies...'' w0
      in case kospi_loop dart_reader 0 corp_codes_df [] w1 of
           (Inl x, w2) \<Rightarrow> (Inl x, w2)
         | (Inr kospi_codes_df, w2) \<Rightarrow>
             (let output_filepath = kospi_filepath output_dir
              in case save_df_to_csv l e kospi_codes_df output_filepath False w2 of
                   (Inl x, w3) \<Rightarrow> (Inl x, w3)
                 | (Inr _, w3) \<Rightarrow>
                     (Inr kospi_codes_df,
                      py_print (''Saved '' @ str_nat (length kospi_codes_df)
                                 @ '' KOSPI company details to '' @ output_filepath) w3)))"

subsection \<open>Concrete collaborators for the examples\<close>

definition empty_world :: world where
  "empty_world = \<lparr>stdout = [], files = Map.empty, dirs = {}, sleeps = []\<rparr>"

definition corp_element :: "string \<Rightarrow> string \<Rightarrow> string option \<Rightarrow> xml" where
  \<comment> \<open>A \<open>list\<close> element of the directory; without a \<open>stock_code\<close> child for \<open>None\<close>.\<close>
  "corp_element code name ticker =
     Element ''list'' None
       ([Element ''corp_code'' (Some code) [],
         Element ''corp_name'' (Some name) [],
         Element ''corp_eng_name'' (Some name) []]
        @ (case ticker of None \<Rightarrow> [] | Some t \<Rightarrow> [Element ''stock_code'' (Some t) []]))"

definition sample_root :: xml where
  "sample_root =
     Element ''result'' None
       [corp_element ''00126380'' ''Samsung'' (Some ''005930''),
        corp_element ''00434003'' ''Dacom'' None,
        corp_element ''00164779'' ''Hynix'' (Some ''000660''),
        corp_element ''00430964'' ''Gulf'' (Some ''1234''),
        corp_element ''00164742'' ''Hyundai'' (Some ''005380'')]"

definition sample_lib :: lib where
  "sample_lib =
     \<lparr>unzip_member =
        (\<lambda>archive member.
           if archive = ''PKdirectory''
           then (if member = ''CORPCODE.xml'' then Inr ''<result/>'' else Inl (KeyError member))
           else if archive = ''PKgarbled''
           then (if member = ''CORPCODE.xml'' then Inr ''<result'' else Inl (KeyError member))
           else Inl (BadZipFile ''File is not a zip file'')),
      et_parse =
        (\<lambda>doc. if doc = ''<result/>'' then Inr sample_root
              else Inl (ParseError ''unclosed token: line 1, column 0'')),
      csv_text =
        (\<lambda>df index.
           (concat (map (\<lambda>row. concat (map (\<lambda>(k, v). fmt v @ '','') row) @ '';'') df),
            None))\<rparr>"

definition header_only_lib :: lib where
  \<comment> \<open>Serialising raises after the header.\<close>
  "header_only_lib =
     sample_lib\<lparr>csv_text := (\<lambda>df index. (''corp_code;'', Some (OtherException ''encoding'')))\<rparr>"

definition ok_response :: "string list \<Rightarrow> response" where
  "ok_response cs = \<lparr>status_code = 200, chunks = cs, stream_error = None\<rparr>"

definition serving :: "response \<Rightarrow> env" where
  \<comment> \<open>The server answers, the disk does not fail.\<close>
  "serving r =
     \<lparr>requests_get = (\<lambda>url. Inr r),
      mkdir_error = (\<lambda>p. None),
      open_error = (\<lambda>p. None)\<rparr>"

definition unreachable :: env where
  "unreachable =
     \<lparr>requests_get = (\<lambda>url. Inl (RequestException ''Connection refused'')),
      mkdir_error = (\<lambda>p. None),
      open_error = (\<lambda>p. None)\<rparr>"

definition disk_full :: "response \<Rightarrow> env" where
  \<comment> \<open>The server answers, directories can be made, no file can be opened for writing.\<close>
  "disk_full r =
     \<lparr>requests_get = (\<lambda>url. Inr r),
      mkdir_error = (\<lambda>p. None),
      open_error = (\<lambda>p. Some (OSError ''[Errno 28] No space left on device''))\<rparr>"

definition read_only :: "response \<Rightarrow> env" where
  \<comment> \<open>The server answers, the disk refuses every directory and file.\<close>
  "read_only r =
     \<lparr>requests_get = (\<lambda>url. Inr r),
      mkdir_error = (\<lambda>p. Some (OSError ''[Errno 13] Permission denied'')),
      open_error = (\<lambda>p. Some (OSError ''[Errno 13] Permission denied''))\<rparr>"

definition listed_row :: "string \<Rightarrow> string \<Rightarrow> string \<Rightarrow> pydict" where
  \<comment> \<open>A row as \<open>get_listed_corp_codes\<close> builds it.\<close>
  "listed_row code name ticker =
     [(''corp_code'', Some code), (''corp_name'', Some name),
      (''corp_eng_name'', Some name), (''stock_code'', Some ticker)]"

definition sample_table :: dataframe where
  "sample_table =
     [listed_row ''00126380'' ''Samsung'' ''005930'',
      listed_row ''00164779'' ''Hynix'' ''000660'',
      listed_row ''00164742'' ''Hyundai'' ''005380'',
      listed_row ''00258801'' ''Kakao'' ''035720'',
      listed_row ''00413046'' ''Celltrion'' ''068270'']"

definition detail :: "string \<Rightarrow> string \<Rightarrow> string \<Rightarrow> string \<Rightarrow> pydict" where
  \<comment> \<open>An answer of the detail endpoint.\<close>
  "detail cls name code ticker =
     [(''status'', Some ''000''), (''corp_name'', Some name), (''corp_code'', Some code),
      (''stock_code'', Some ticker), (''ceo_nm'', Some ''Kim''), (''corp_cls'', Some cls),
      (''jurir_no'', Some ''1301110006246''), (''bizr_no'', Some ''1248100998''),
      (''induty_code'', Some ''264''), (''est_dt'', Some ''19690113'')]"

definition sample_reader :: client where
  \<comment> \<open>Two entries of the main market, one failing call, one entry of another market and
      one whose class is a lower-case \<open>y\<close>. The first answer disagrees with the directory
      on the name and on the ticker.\<close>
  "sample_reader i code =
     (if code = Some ''00126380''
      then Inr (Some (detail ''Y'' ''Samsung Electronics'' ''00126380'' ''005935''))
      else if code = Some ''00164779'' then Inl (OtherException ''status 020'')
      else if code = Some ''00164742''
      then Inr (Some (detail ''Y'' ''Hyundai'' ''00164742'' ''005380''))
      else if code = Some ''00258801''
      then Inr (Some (detail ''K'' ''Kakao'' ''00258801'' ''035720''))
      else Inr (Some (detail ''y'' ''Celltrion'' ''00413046'' ''068270'')))"

definition failing_reader :: client where
  "failing_reader i code = Inl (OtherException ''status 020'')"

subsection \<open>The filters, in the words of the specification\<close>

definition ticker_retained :: "xml \<Rightarrow> bool" where
  \<comment> \<open>The ticker field is present (not \<open>None\<close>, not empty) and has exactly six characters.\<close>
  "ticker_retained corp =
     (case findtext corp ''stock_code'' of None \<Rightarrow> False | Some s \<Rightarrow> s \<noteq> [] \<and> length s = 6)"

definition same_answer :: "exn + response \<Rightarrow> exn + response \<Rightarrow> bool" where
  \<comment> \<open>The server gives the same answer: the same exception, or the same status, the same
      bytes (in whatever chunks) and the same end of the stream.\<close>
  "same_answer a b =
     (case (a, b) of
        (Inl x, Inl y) \<Rightarrow> x = y
      | (Inr r, Inr s) \<Rightarrow>
          status_code r = status_code s \<and> concat (chunks r) = concat (chunks s) \<and>
          stream_error r = stream_error s
      | _ \<Rightarrow> False)"

definition has_columns :: "dataframe \<Rightarrow> string list \<Rightarrow> bool" where
  \<comment> \<open>Every row of the table has the columns.\<close>
  "has_columns df ks = list_all (\<lambda>row. list_all (\<lambda>k. map_of row k \<noteq> None) ks) df"

definition answer :: "client \<Rightarrow> nat \<times> pydict \<Rightarrow> exn + pydict option" where
  \<comment> \<open>What the client answers for the row at a position.\<close>
  "answer dart_reader = (\<lambda>(i, row). dart_reader i (dict_get row ''corp_code''))"

definition lookups :: "client \<Rightarrow> dataframe \<Rightarrow> (exn + pydict option) list" where
  \<comment> \<open>The answers for the rows of a table, in its order.\<close>
  "lookups dart_reader df = map (answer dart_reader) (enumerate 0 df)"

fun found :: "(exn + pydict option) list \<Rightarrow> pydict list" where
  \<comment> \<open>The dictionaries of the lookups that returned one.\<close>
  "found [] = []"
| "found (Inr (Some d) # rest) = d # found rest"
| "found (_ # rest) = found rest"

definition classified_Y :: "pydict \<Rightarrow> bool" where
  \<comment> \<open>The classification equals the sentinel, exactly.\<close>
  "classified_Y info = (dict_get info ''corp_cls'' = Some ''Y'')"

definition diagnostic :: "pydict \<Rightarrow> exn \<Rightarrow> string" where
  \<comment> \<open>The line of line 154, for a row and the exception of its lookup.\<close>
  "diagnostic row x =
     ''Failed to fetch company info for '' @ fmt (dict_get row ''corp_name'')
       @ '' ('' @ fmt (dict_get row ''corp_code'') @ ''): '' @ str_exn x"

fun failure_lines :: "(pydict \<times> (exn + pydict option)) list \<Rightarrow> string list" where
  \<comment> \<open>The diagnostics of the rows whose lookup raised, given each row with its answer.\<close>
  "failure_lines [] = []"
| "failure_lines ((row, Inl x) # rest) = diagnostic row x # failure_lines rest"
| "failure_lines ((row, Inr _) # rest) = failure_lines rest"

section \<open>Properties\<close>

subsection \<open>The world\<close>

lemmas example_defs =
  serving_def unreachable_def read_only_def disk_full_def ok_response_def sample_lib_def
  empty_world_def raise_for_status_def os_makedirs_def url_code_def corp_data_path_def
  xml_zip_path_def xml_path_def listed_filepath_def kospi_filepath_def path_join_def
  dirname_def rstrip_sep_def open_w_def is_dir_def dir_chain_def

lemma py_print_simps [simp]:
  "stdout (py_print s w) = stdout w @ [s]"
  "files (py_print s w) = files w"
  "dirs (py_print s w) = dirs w"
  "sleeps (py_print s w) = sleeps w"
  by (simp_all add: py_print_def)

lemma write_file_simps [simp]:
  "stdout (write_file p c w) = stdout w"
  "files (write_file p c w) = (files w)(p \<mapsto> c)"
  "dirs (write_file p c w) = dirs w"
  "sleeps (write_file p c w) = sleeps w"
  by (simp_all add: write_file_def)

lemma time_sleep_simps [simp]:
  "stdout (time_sleep ms w) = stdout w"
  "files (time_sleep ms w) = files w"
  "dirs (time_sleep ms w) = dirs w"
  "sleeps (time_sleep ms w) = sleeps w @ [ms]"
  by (simp_all add: time_sleep_def)

lemma mkdirs_simps [simp]:
  "stdout (mkdirs p w) = stdout w"
  "files (mkdirs p w) = files w"
  "dirs (mkdirs p w) = dirs w \<union> set (dir_chain p)"
  "sleeps (mkdirs p w) = sleeps w"
  by (simp_all add: mkdirs_def)

lemma empty_world_simps [simp]:
  "stdout empty_world = []"
  "files empty_world = Map.empty"
  "dirs empty_world = {}"
  "sleeps empty_world = []"
  by (simp_all add: empty_world_def)

lemma write_file_twice [simp]: "write_file p c (write_file p c' w) = write_file p c w"
  by (simp add: write_file_def)

lemma is_dir_simps [simp]:
  "is_dir (py_print s w) d = is_dir w d"
  "is_dir (write_file p c w) d = is_dir w d"
  by (simp_all add: is_dir_def)

subsection \<open>Paths and directories\<close>

lemma prefixes_whole: "acc @ s \<in> set (prefixes acc s)"
proof (induction s arbitrary: acc)
  case Nil
  then show ?case by simp
next
  case (Cons c s)
  from Cons [of "acc @ [c]"] show ?case by simp
qed

lemma prefixes_before_sep: "acc @ u \<in> set (prefixes acc (u @ CHR ''/'' # v))"
proof (induction u arbitrary: acc)
  case Nil
  then show ?case by simp
next
  case (Cons c u)
  from Cons [of "acc @ [c]"] show ?case by simp
qed

lemma dir_chain_self: "q \<noteq> [] \<Longrightarrow> q \<in> set (dir_chain q)"
  using prefixes_whole [of "[]" q] by (simp add: dir_chain_def)

lemma dir_chain_before_sep: "u \<noteq> [] \<Longrightarrow> u \<in> set (dir_chain (u @ CHR ''/'' # v))"
  using prefixes_before_sep [of "[]" u v] by (simp add: dir_chain_def)

lemma rstrip_sep_decomp: "\<exists>n. a = rstrip_sep a @ replicate n (CHR ''/'')"
proof -
  let ?P = "\<lambda>c. c = CHR ''/''"
  have "rev a = takeWhile ?P (rev a) @ dropWhile ?P (rev a)"
    by simp
  then have "a = rev (dropWhile ?P (rev a)) @ rev (takeWhile ?P (rev a))"
    by (metis rev_append rev_rev_ident)
  moreover have "rev (takeWhile ?P (rev a))
                  = replicate (length (takeWhile ?P (rev a))) (CHR ''/'')"
  proof -
    have "\<forall>x \<in> set (rev (takeWhile ?P (rev a))). x = CHR ''/''"
      by (auto dest: set_takeWhileD)
    then show ?thesis
      by (metis length_rev replicate_eqI)
  qed
  ultimately show ?thesis
    unfolding rstrip_sep_def by metis
qed

lemma dirname_join:
  assumes "a \<noteq> []" and "CHR ''/'' \<notin> set b"
  shows "dirname (path_join a b) = replicate (length (dirname (path_join a b))) (CHR ''/'')
         \<or> dirname (path_join a b) \<in> set (dir_chain a)"
proof -
  let ?P = "\<lambda>c. c \<noteq> CHR ''/''"
  have b: "\<not> (b \<noteq> [] \<and> hd b = CHR ''/'')"
    using assms(2) by (cases b) auto
  have drop: "dropWhile ?P (rev b @ ys) = dropWhile ?P ys" for ys
    using assms(2) by (intro dropWhile_append2) auto
  show ?thesis
  proof (cases "last a = CHR ''/''")
    case True
    then have p: "path_join a b = a @ b"
      using b by (auto simp: path_join_def)
    have "dropWhile ?P (rev a) = rev a"
      using True assms(1) by (cases a rule: rev_cases) auto
    then have head: "rev (dropWhile ?P (rev (a @ b))) = a"
      by (simp add: drop)
    show ?thesis
    proof (cases "a = replicate (length a) (CHR ''/'')")
      case True
      with head p assms(1) show ?thesis
        by (simp add: dirname_def)
    next
      case False
      with head p assms(1) have d: "dirname (path_join a b) = rstrip_sep a"
        by (simp add: dirname_def)
      obtain n where n: "a = rstrip_sep a @ replicate n (CHR ''/'')"
        using rstrip_sep_decomp by blast
      have "rstrip_sep a \<noteq> []"
      proof
        assume "rstrip_sep a = []"
        with n have "a = replicate n (CHR ''/'')" by simp
        then have "a = replicate (length a) (CHR ''/'')" by (metis length_replicate)
        with False show False by simp
      qed
      moreover have "n \<noteq> 0"
      proof
        assume "n = 0"
        with n have "rstrip_sep a = a" by simp
        then have "dropWhile (\<lambda>c. c = CHR ''/'') (rev a) = rev a"
          by (metis rstrip_sep_def rev_rev_ident)
        moreover have "hd (rev a) = CHR ''/''"
          using True assms(1) by (simp add: hd_rev)
        ultimately show False
          using assms(1) length_dropWhile_le [of "\<lambda>c. c = CHR ''/''" "tl (rev a)"]
          by (cases "rev a") (auto split: if_splits)
      qed
      ultimately obtain m where "a = rstrip_sep a @ CHR ''/'' # replicate m (CHR ''/'')"
        using n by (cases n) auto
      then have "rstrip_sep a \<in> set (dir_chain a)"
        using dir_chain_before_sep [OF \<open>rstrip_sep a \<noteq> []\<close>] by metis
      with d show ?thesis by simp
    qed
  next
    case False
    then have p: "path_join a b = a @ ''/'' @ b"
      using b assms(1) by (auto simp: path_join_def)
    have head: "rev (dropWhile ?P (rev (a @ ''/'' @ b))) = a @ ''/''"
      using drop [of "CHR ''/'' # rev a"] by simp
    have notall: "a @ ''/'' \<noteq> replicate (length (a @ ''/'')) (CHR ''/'')"
    proof
      assume "a @ ''/'' = replicate (length (a @ ''/'')) (CHR ''/'')"
      then have "set a \<subseteq> {CHR ''/''}"
        by (metis Un_upper1 set_append set_replicate_conv_if subset_insertI2)
      with False assms(1) show False
        by (metis last_in_set singletonD subsetD)
    qed
    have "rstrip_sep (a @ ''/'') = a"
      using False assms(1) by (cases a rule: rev_cases) (auto simp: rstrip_sep_def)
    with head notall p have "dirname (path_join a b) = a"
      by (simp add: dirname_def)
    with dir_chain_self [OF assms(1)] show ?thesis by simp
  qed
qed

text \<open>
  After \<open>os.makedirs\<close> of a directory, a file joined to it can be opened for writing, as far
  as its directory goes; and so can a file whose \<open>dirname\<close> was made.
\<close>

lemma is_dir_joined:
  assumes "a \<noteq> []" and "CHR ''/'' \<notin> set b"
  shows "is_dir (mkdirs a w) (dirname (path_join a b))"
  using dirname_join [OF assms] by (auto simp: is_dir_def)

lemma is_dir_made: "is_dir (mkdirs d w) d"
  by (cases "d = []") (simp_all add: is_dir_def dir_chain_self)

lemma open_w_dir: "is_dir w (dirname p) \<Longrightarrow> open_w e p w = open_error e p"
  by (simp add: open_w_def)

lemma corp_data_path_not_empty: "corp_data_path out \<noteq> []"
  by (simp add: corp_data_path_def path_join_def)

lemma is_dir_xml_zip_path: "is_dir (mkdirs (corp_data_path out) w) (dirname (xml_zip_path out))"
  unfolding xml_zip_path_def by (rule is_dir_joined [OF corp_data_path_not_empty]) simp

lemma is_dir_xml_path: "is_dir (mkdirs (corp_data_path out) w) (dirname (xml_path out))"
  unfolding xml_path_def by (rule is_dir_joined [OF corp_data_path_not_empty]) simp

subsection \<open>save_df_to_csv\<close>

lemma to_csv_after_mkdirs:
  "to_csv l e df p index (mkdirs (dirname p) w) =
     (case open_error e p of
        Some x \<Rightarrow> (Inl x, mkdirs (dirname p) w)
      | None \<Rightarrow>
          (case csv_text l df index of
             (t, None) \<Rightarrow> (Inr (), write_file p t (mkdirs (dirname p) w))
           | (t, Some x) \<Rightarrow> (Inl x, write_file p t (mkdirs (dirname p) w))))"
  by (simp add: to_csv_def open_w_dir [OF is_dir_made])

lemma save_df_to_csv_fst:
  "fst (save_df_to_csv l e df p index w) =
     (case os_makedirs e (dirname p) of Some x \<Rightarrow> Inl x | None \<Rightarrow> Inr ())"
  by (simp add: save_df_to_csv_def split: option.splits sum.splits prod.splits)

text \<open>
  C10. The directory is created before the \<open>try\<close>: when \<open>os.makedirs\<close> raises,
  \<open>save_df_to_csv\<close> raises the same exception to its caller, and nothing is printed or
  written. A path without a directory component is such a case, for every table and on
  every disk: its \<open>dirname\<close> is empty, and \<open>os.makedirs('')\<close> raises.
\<close>

theorem save_df_to_csv_propagates_makedirs_failure:
  assumes "os_makedirs e (dirname file_path) = Some x"
  shows "save_df_to_csv l e df file_path index w = (Inl x, w)"
  using assms by (simp add: save_df_to_csv_def)

theorem save_df_to_csv_propagates_makedirs_failure_witness:
  "\<forall>l e df index w.
     dirname ''out.csv'' = [] \<and>
     save_df_to_csv l e df ''out.csv'' index w
       = (Inl (OSError ''[Errno 2] No such file or directory''), w)"
proof (intro allI conjI)
  show d: "dirname ''out.csv'' = []"
    by (simp add: dirname_def)
  fix l e df index w
  have "os_makedirs e (dirname ''out.csv'')
          = Some (OSError ''[Errno 2] No such file or directory'')"
    by (simp add: d os_makedirs_def)
  then show "save_df_to_csv l e df ''out.csv'' index w
               = (Inl (OSError ''[Errno 2] No such file or directory''), w)"
    by (rule save_df_to_csv_propagates_makedirs_failure)
qed

text \<open>
  C6, as stated, fails: on a disk that refuses the directory, saving an empty table to a
  nested path raises \<open>OSError\<close>.
\<close>

theorem save_df_to_csv_raises_on_read_only_disk:
  "fst (save_df_to_csv sample_lib (read_only (ok_response [])) [] ''/srv/out/table.csv'' False
          empty_world)
     = Inl (OSError ''[Errno 13] Permission denied'')"
  by (simp add: save_df_to_csv_def os_makedirs_def dirname_def rstrip_sep_def read_only_def)

text \<open>
  C6, amended. When \<open>os.makedirs\<close> does not raise for the parent directory of the path,
  \<open>save_df_to_csv\<close> returns without raising, whatever was on the disk before. It first
  makes the directories: the parent directory and every leading part of it are directories
  afterwards. Then it writes: if the file can be opened and the table serialised, the text
  of the table, for the \<open>index\<close> flag given (\<open>False\<close> unless the caller says otherwise:
  no row index), is the content of the file and nothing is printed; if opening raises, or
  serialising raises after a part of the text is written, one line that names the path and
  the error is printed.
\<close>

theorem save_df_to_csv_guarded_write:
  assumes "os_makedirs e (dirname file_path) = None"
  shows "fst (save_df_to_csv l e df file_path index w) = Inr () \<and>
         set (dir_chain (dirname file_path))
           \<subseteq> dirs (snd (save_df_to_csv l e df file_path index w)) \<and>
         (\<forall>t. open_error e file_path = None \<and> csv_text l df index = (t, None) \<longrightarrow>
              snd (save_df_to_csv l e df file_path index w)
                = write_file file_path t (mkdirs (dirname file_path) w)) \<and>
         (\<forall>x. open_error e file_path = Some x \<longrightarrow>
              snd (save_df_to_csv l e df file_path index w)
                = py_print (''Error saving DataFrame to CSV '' @ file_path @ '': '' @ str_exn x)
                    (mkdirs (dirname file_path) w)) \<and>
         (\<forall>t x. open_error e file_path = None \<and> csv_text l df index = (t, Some x) \<longrightarrow>
              snd (save_df_to_csv l e df file_path index w)
                = py_print (''Error saving DataFrame to CSV '' @ file_path @ '': '' @ str_exn x)
                    (write_file file_path t (mkdirs (dirname file_path) w)))"
  using assms
  by (auto simp add: save_df_to_csv_def to_csv_after_mkdirs
        split: sum.splits option.splits prod.splits)

theorem save_df_to_csv_guarded_write_witness:
  "fst (save_df_to_csv sample_lib (serving (ok_response [])) [[(''corp_code'', Some ''00126380'')]]
          ''out/tables/listed.csv'' False empty_world) = Inr () \<and>
   dirs (snd (save_df_to_csv sample_lib (serving (ok_response []))
                [[(''corp_code'', Some ''00126380'')]] ''out/tables/listed.csv'' False
                empty_world)) = {''out'', ''out/tables''} \<and>
   files (snd (save_df_to_csv sample_lib (serving (ok_response []))
                 [[(''corp_code'', Some ''00126380'')]] ''out/tables/listed.csv'' False
                 empty_world)) ''out/tables/listed.csv'' = Some ''00126380,;'' \<and>
   stdout (snd (save_df_to_csv sample_lib (serving (ok_response []))
                  [[(''corp_code'', Some ''00126380'')]] ''out/tables/listed.csv'' False
                  empty_world)) = [] \<and>
   save_df_to_csv sample_lib (disk_full (ok_response [])) [[(''corp_code'', Some ''00126380'')]]
       ''out/tables/listed.csv'' False empty_world
     = (Inr (),
        py_print (''Error saving DataFrame to CSV out/tables/listed.csv: ''
                   @ ''[Errno 28] No space left on device'')
          (mkdirs ''out/tables'' empty_world)) \<and>
   save_df_to_csv header_only_lib (serving (ok_response []))
       [[(''corp_code'', Some ''00126380'')]] ''out/tables/listed.csv'' False empty_world
     = (Inr (),
        py_print ''Error saving DataFrame to CSV out/tables/listed.csv: encoding''
          (write_file ''out/tables/listed.csv'' ''corp_code;'' (mkdirs ''out/tables'' empty_world)))"
proof -
  let ?df = "[[(''corp_code'', Some ''00126380'')]]"
  let ?p = "''out/tables/listed.csv''"
  have d: "dirname ?p = ''out/tables''"
    by (simp add: dirname_def rstrip_sep_def)
  have a: "os_makedirs (serving (ok_response [])) (dirname ?p) = None"
    by (simp add: d os_makedirs_def serving_def)
  have b: "os_makedirs (disk_full (ok_response [])) (dirname ?p) = None"
    by (simp add: d os_makedirs_def disk_full_def)
  have c: "csv_text sample_lib ?df False = (''00126380,;'', None)"
    by (simp add: sample_lib_def fmt_def)
  have h: "csv_text header_only_lib ?df False = (''corp_code;'', Some (OtherException ''encoding''))"
    by (simp add: header_only_lib_def)
  have o: "open_error (serving (ok_response [])) ?p = None"
    by (simp add: serving_def)
  have f: "open_error (disk_full (ok_response [])) ?p
             = Some (OSError ''[Errno 28] No space left on device'')"
    by (simp add: disk_full_def)
  have ch: "set (dir_chain ''out/tables'') = {''out'', ''out/tables''}"
    by (simp add: dir_chain_def)
  note t1 = save_df_to_csv_guarded_write [OF a, of sample_lib ?df False empty_world]
  note t2 = save_df_to_csv_guarded_write [OF b, of sample_lib ?df False empty_world]
  note t3 = save_df_to_csv_guarded_write [OF a, of header_only_lib ?df False empty_world]
  have s1: "snd (save_df_to_csv sample_lib (serving (ok_response [])) ?df ?p False empty_world)
              = write_file ?p ''00126380,;'' (mkdirs (dirname ?p) empty_world)"
    using t1 c o by simp
  have s2: "snd (save_df_to_csv sample_lib (disk_full (ok_response [])) ?df ?p False empty_world)
              = py_print (''Error saving DataFrame to CSV '' @ ?p @ '': ''
                           @ ''[Errno 28] No space left on device'')
                  (mkdirs (dirname ?p) empty_world)"
    using t2 f by simp
  have s3: "snd (save_df_to_csv header_only_lib (serving (ok_response [])) ?df ?p False
                   empty_world)
              = py_print (''Error saving DataFrame to CSV '' @ ?p @ '': encoding'')
                  (write_file ?p ''corp_code;'' (mkdirs (dirname ?p) empty_world))"
    using t3 h o by simp
  have f1: "fst (save_df_to_csv sample_lib (serving (ok_response [])) ?df ?p False empty_world)
              = Inr ()"
    and f2: "fst (save_df_to_csv sample_lib (disk_full (ok_response [])) ?df ?p False
                    empty_world) = Inr ()"
    and f3: "fst (save_df_to_csv header_only_lib (serving (ok_response [])) ?df ?p False
                    empty_world) = Inr ()"
    using t1 t2 t3 by simp_all
  show ?thesis
    using f1 f2 f3
    by (simp add: s1 s2 s3 d ch prod_eq_iff)
qed

subsection \<open>get_listed_corp_codes\<close>

lemma write_chunks_appends:
  "files w p = Some old \<Longrightarrow> write_chunks p cs w = write_file p (old @ concat cs) w"
proof (induction cs arbitrary: w old)
  case Nil
  then show ?case by (simp add: write_file_def fun_upd_idem)
next
  case (Cons c cs)
  have "files (write_file p (old @ c) w) p = Some (old @ c)" by simp
  from Cons.IH [OF this] Cons.prems show ?case by simp
qed

lemma download_eq:
  "download e r p w =
     (case open_w e p w of
        Some x \<Rightarrow> (Inl x, w)
      | None \<Rightarrow>
          (case stream_error r of Some x \<Rightarrow> Inl x | None \<Rightarrow> Inr (),
           write_file p (concat (chunks r)) w))"
proof -
  have "write_chunks p (chunks r) (write_file p [] w) = write_file p (concat (chunks r)) w"
    using write_chunks_appends [of "write_file p [] w" p "[]" "chunks r"] by simp
  then show ?thesis
    by (simp add: download_def Let_def split: option.splits)
qed

lemma collect_listed_filter:
  "collect_listed els acc =
     acc @ map (\<lambda>c. listed_record c (findtext c ''stock_code'')) (filter ticker_retained els)"
  by (induction els arbitrary: acc) (auto simp: ticker_retained_def Let_def split: option.splits)

lemma finish_listed_fst:
  "fst (finish_listed l e out root w) =
     (case os_makedirs e (dirname (listed_filepath out)) of
        Some x \<Rightarrow> Inl x
      | None \<Rightarrow> Inr (collect_listed (findall root ''list'') []))"
proof -
  let ?df = "collect_listed (findall root ''list'') []"
  obtain r w' where s: "save_df_to_csv l e ?df (listed_filepath out) False w = (r, w')"
    by (cases "save_df_to_csv l e ?df (listed_filepath out) False w")
  with save_df_to_csv_fst [of l e ?df "listed_filepath out" False w]
  show ?thesis
    by (simp add: finish_listed_def Let_def split: option.splits sum.splits)
qed

text \<open>The run up to the point where the archive is on the disk.\<close>

lemma get_listed_downloaded:
  assumes "requests_get e (url_code k) = Inr r"
    and "raise_for_status r = None"
    and "os_makedirs e (corp_data_path out) = None"
    and "open_error e (xml_zip_path out) = None"
    and "stream_error r = None"
  shows "get_listed_corp_codes l e k out w =
           extract_listed l e out
             (write_file (xml_zip_path out) (concat (chunks r))
                (mkdirs (corp_data_path out)
                   (py_print ''Fetching all corporation codes from OpenDART...'' w)))"
  using assms
  by (simp add: get_listed_corp_codes_def download_eq Let_def
        open_w_dir [OF is_dir_xml_zip_path])

lemma downloaded_world:
  "files (write_file (xml_zip_path out) bytes (mkdirs (corp_data_path out) w)) (xml_zip_path out)
     = Some bytes"
  "open_w e (xml_path out) (write_file (xml_zip_path out) bytes (mkdirs (corp_data_path out) w))
     = open_error e (xml_path out)"
  by (simp_all add: open_w_dir is_dir_xml_path)

lemma extract_listed_extracted:
  assumes "files w (xml_zip_path out) = Some archive"
    and "unzip_member l archive ''CORPCODE.xml'' = Inr doc"
    and "open_w e (xml_path out) w = None"
  shows "extract_listed l e out w =
           (case et_parse l doc of
              Inl x \<Rightarrow>
                (if is_ParseError x
                 then (Inr [],
                       py_print (''Error parsing CORPCODE.xml: '' @ str_exn x)
                         (py_print (''CORPCODE.xml extracted to '' @ xml_path out)
                            (write_file (xml_path out) doc w)))
                 else (Inl x,
                       py_print (''CORPCODE.xml extracted to '' @ xml_path out)
                         (write_file (xml_path out) doc w)))
            | Inr root \<Rightarrow>
                finish_listed l e out root
                  (py_print (''CORPCODE.xml extracted to '' @ xml_path out)
                     (write_file (xml_path out) doc w)))"
  using assms by (simp add: extract_listed_def parse_listed_def Let_def split: sum.splits)

text \<open>
  C2. When the download, the extraction and the parse succeed and the output directory can
  be created, the table that \<open>get_listed_corp_codes\<close> returns holds one row for each
  \<open>list\<close> element of the document whose \<open>stock_code\<close> is present, not empty and six
  characters long, and for no other; the rows are in the order of the document.
\<close>

theorem get_listed_corp_codes_ticker_filter:
  assumes "requests_get e (url_code api_key) = Inr r"
    and "raise_for_status r = None"
    and "os_makedirs e (corp_data_path output_dir) = None"
    and "open_error e (xml_zip_path output_dir) = None"
    and "stream_error r = None"
    and "unzip_member l (concat (chunks r)) ''CORPCODE.xml'' = Inr doc"
    and "open_error e (xml_path output_dir) = None"
    and "et_parse l doc = Inr root"
    and "os_makedirs e (dirname (listed_filepath output_dir)) = None"
  shows "fst (get_listed_corp_codes l e api_key output_dir w) =
           Inr (map (\<lambda>corp. listed_record corp (findtext corp ''stock_code''))
                  (filter ticker_retained (findall root ''list'')))"
proof -
  let ?w1 = "write_file (xml_zip_path output_dir) (concat (chunks r))
               (mkdirs (corp_data_path output_dir)
                  (py_print ''Fetching all corporation codes from OpenDART...'' w))"
  have "get_listed_corp_codes l e api_key output_dir w = extract_listed l e output_dir ?w1"
    using assms(1-5) by (rule get_listed_downloaded)
  moreover have "files ?w1 (xml_zip_path output_dir) = Some (concat (chunks r))"
    and "open_w e (xml_path output_dir) ?w1 = None"
    using assms(7) by (simp_all add: downloaded_world)
  ultimately show ?thesis
    using assms(6,8,9)
    by (simp add: extract_listed_extracted finish_listed_fst collect_listed_filter)
qed

theorem get_listed_corp_codes_ticker_filter_witness:
  "fst (get_listed_corp_codes sample_lib (serving (ok_response [''PKdir'', ''ectory'']))
          ''key'' ''data/raw'' empty_world) =
     Inr [[(''corp_code'', Some ''00126380''), (''corp_name'', Some ''Samsung''),
           (''corp_eng_name'', Some ''Samsung''), (''stock_code'', Some ''005930'')],
          [(''corp_code'', Some ''00164779''), (''corp_name'', Some ''Hynix''),
           (''corp_eng_name'', Some ''Hynix''), (''stock_code'', Some ''000660'')],
          [(''corp_code'', Some ''00164742''), (''corp_name'', Some ''Hyundai''),
           (''corp_eng_name'', Some ''Hyundai''), (''stock_code'', Some ''005380'')]]"
  using get_listed_corp_codes_ticker_filter
          [of "serving (ok_response [''PKdir'', ''ectory''])" "''key''"
              "ok_response [''PKdir'', ''ectory'']" "''data/raw''" sample_lib "''<result/>''"
              sample_root empty_world]
  by (simp add: serving_def ok_response_def sample_lib_def sample_root_def corp_element_def
        raise_for_status_def os_makedirs_def corp_data_path_def xml_zip_path_def xml_path_def
        listed_filepath_def path_join_def dirname_def rstrip_sep_def ticker_retained_def
        findall_def findtext_def listed_record_def)

lemma raise_for_status_class: "raise_for_status r = Some x \<Longrightarrow> is_RequestException x"
  by (auto simp: raise_for_status_def split: if_splits)

lemma extract_listed_bad_zip:
  assumes "files w (xml_zip_path out) = Some archive"
    and "unzip_member l archive ''CORPCODE.xml'' = Inl (BadZipFile m)"
  shows "extract_listed l e out w =
           (Inr [],
            py_print ''Error: Downloaded file is not a valid zip file. Check API key or response content.'' w)"
  using assms by (simp add: extract_listed_def Let_def)

text \<open>
  C1, as stated, fails: with the server answering and a disk that refuses the download
  directory, \<open>get_listed_corp_codes\<close> raises \<open>OSError\<close>.
\<close>

theorem get_listed_corp_codes_raises_on_read_only_disk:
  "fst (get_listed_corp_codes sample_lib (read_only (ok_response [''PKdir'', ''ectory'']))
          ''key'' ''data/raw'' empty_world)
     = Inl (OSError ''[Errno 13] Permission denied'')"
  by (simp add: get_listed_corp_codes_def Let_def read_only_def ok_response_def
        raise_for_status_def os_makedirs_def corp_data_path_def path_join_def)

text \<open>
  C1, amended. The three handlers turn the failure they name into a printed diagnostic and
  an empty table: a \<open>RequestException\<close> of \<open>requests.get\<close> or of \<open>raise_for_status\<close>,
  a \<open>BadZipFile\<close> of the extraction, and a \<open>ParseError\<close> of the parse. What is raised
  outside them is not caught: when the download directory cannot be created, the exception
  of \<open>os.makedirs\<close> reaches the caller.
\<close>

theorem get_listed_corp_codes_handled_failures:
  "(\<forall>m. requests_get e (url_code api_key) = Inl (RequestException m) \<longrightarrow>
        get_listed_corp_codes l e api_key output_dir w =
          (Inr [],
           py_print (''Error fetching corporation codes: '' @ m)
             (py_print ''Fetching all corporation codes from OpenDART...'' w))) \<and>
   (\<forall>r x. requests_get e (url_code api_key) = Inr r \<and> raise_for_status r = Some x \<longrightarrow>
        get_listed_corp_codes l e api_key output_dir w =
          (Inr [],
           py_print (''Error fetching corporation codes: '' @ str_exn x)
             (py_print ''Fetching all corporation codes from OpenDART...'' w))) \<and>
   (\<forall>r m. requests_get e (url_code api_key) = Inr r \<and> raise_for_status r = None \<and>
          os_makedirs e (corp_data_path output_dir) = None \<and>
          open_error e (xml_zip_path output_dir) = None \<and> stream_error r = None \<and>
          unzip_member l (concat (chunks r)) ''CORPCODE.xml'' = Inl (BadZipFile m) \<longrightarrow>
        get_listed_corp_codes l e api_key output_dir w =
          (Inr [],
           py_print ''Error: Downloaded file is not a valid zip file. Check API key or response content.''
             (write_file (xml_zip_path output_dir) (concat (chunks r))
                (mkdirs (corp_data_path output_dir)
                   (py_print ''Fetching all corporation codes from OpenDART...'' w))))) \<and>
   (\<forall>r doc m. requests_get e (url_code api_key) = Inr r \<and> raise_for_status r = None \<and>
          os_makedirs e (corp_data_path output_dir) = None \<and>
          open_error e (xml_zip_path output_dir) = None \<and> stream_error r = None \<and>
          unzip_member l (concat (chunks r)) ''CORPCODE.xml'' = Inr doc \<and>
          open_error e (xml_path output_dir) = None \<and>
          et_parse l doc = Inl (ParseError m) \<longrightarrow>
        get_listed_corp_codes l e api_key output_dir w =
          (Inr [],
           py_print (''Error parsing CORPCODE.xml: '' @ m)
             (py_print (''CORPCODE.xml extracted to '' @ xml_path output_dir)
                (write_file (xml_path output_dir) doc
                   (write_file (xml_zip_path output_dir) (concat (chunks r))
                      (mkdirs (corp_data_path output_dir)
                         (py_print ''Fetching all corporation codes from OpenDART...''
                            w))))))) \<and>
   (\<forall>r x. requests_get e (url_code api_key) = Inr r \<and> raise_for_status r = None \<and>
          os_makedirs e (corp_data_path output_dir) = Some x \<longrightarrow>
        get_listed_corp_codes l e api_key output_dir w =
          (Inl x, py_print ''Fetching all corporation codes from OpenDART...'' w))"
proof (intro conjI allI impI)
  fix m
  assume "requests_get e (url_code api_key) = Inl (RequestException m)"
  then show "get_listed_corp_codes l e api_key output_dir w =
          (Inr [],
           py_print (''Error fetching corporation codes: '' @ m)
             (py_print ''Fetching all corporation codes from OpenDART...'' w))"
    by (simp add: get_listed_corp_codes_def Let_def)
next
  fix r x
  assume a: "requests_get e (url_code api_key) = Inr r \<and> raise_for_status r = Some x"
  then have "is_RequestException x"
    by (blast intro: raise_for_status_class)
  with a show "get_listed_corp_codes l e api_key output_dir w =
          (Inr [],
           py_print (''Error fetching corporation codes: '' @ str_exn x)
             (py_print ''Fetching all corporation codes from OpenDART...'' w))"
    by (simp add: get_listed_corp_codes_def Let_def)
next
  fix r :: response and m
  let ?w1 = "write_file (xml_zip_path output_dir) (concat (chunks r))
               (mkdirs (corp_data_path output_dir)
                  (py_print ''Fetching all corporation codes from OpenDART...'' w))"
  assume a: "requests_get e (url_code api_key) = Inr r \<and> raise_for_status r = None \<and>
          os_makedirs e (corp_data_path output_dir) = None \<and>
          open_error e (xml_zip_path output_dir) = None \<and> stream_error r = None \<and>
          unzip_member l (concat (chunks r)) ''CORPCODE.xml'' = Inl (BadZipFile m)"
  then have "get_listed_corp_codes l e api_key output_dir w = extract_listed l e output_dir ?w1"
    by (simp add: get_listed_downloaded)
  moreover have "files ?w1 (xml_zip_path output_dir) = Some (concat (chunks r))"
    by simp
  ultimately show "get_listed_corp_codes l e api_key output_dir w =
          (Inr [],
           py_print ''Error: Downloaded file is not a valid zip file. Check API key or response content.''
             ?w1)"
    using a extract_listed_bad_zip [of ?w1 output_dir "concat (chunks r)" l m e] by simp
next
  fix r :: response and doc m
  let ?w1 = "write_file (xml_zip_path output_dir) (concat (chunks r))
               (mkdirs (corp_data_path output_dir)
                  (py_print ''Fetching all corporation codes from OpenDART...'' w))"
  assume a: "requests_get e (url_code api_key) = Inr r \<and> raise_for_status r = None \<and>
          os_makedirs e (corp_data_path output_dir) = None \<and>
          open_error e (xml_zip_path output_dir) = None \<and> stream_error r = None \<and>
          unzip_member l (concat (chunks r)) ''CORPCODE.xml'' = Inr doc \<and>
          open_error e (xml_path output_dir) = None \<and>
          et_parse l doc = Inl (ParseError m)"
  then have "get_listed_corp_codes l e api_key output_dir w = extract_listed l e output_dir ?w1"
    by (simp add: get_listed_downloaded)
  moreover have "files ?w1 (xml_zip_path output_dir) = Some (concat (chunks r))"
    by simp
  moreover have "open_w e (xml_path output_dir) ?w1 = None"
    using a by (simp add: downloaded_world)
  ultimately show "get_listed_corp_codes l e api_key output_dir w =
          (Inr [],
           py_print (''Error parsing CORPCODE.xml: '' @ m)
             (py_print (''CORPCODE.xml extracted to '' @ xml_path output_dir)
                (write_file (xml_path output_dir) doc ?w1)))"
    using a extract_listed_extracted [of ?w1 output_dir "concat (chunks r)" l doc e] by simp
next
  fix r x
  assume "requests_get e (url_code api_key) = Inr r \<and> raise_for_status r = None \<and>
          os_makedirs e (corp_data_path output_dir) = Some x"
  then show "get_listed_corp_codes l e api_key output_dir w =
          (Inl x, py_print ''Fetching all corporation codes from OpenDART...'' w)"
    by (simp add: get_listed_corp_codes_def Let_def)
qed

theorem get_listed_corp_codes_handled_failures_witness:
  "get_listed_corp_codes sample_lib unreachable ''key'' ''data/raw'' empty_world =
     (Inr [],
      py_print ''Error fetching corporation codes: Connection refused''
        (py_print ''Fetching all corporation codes from OpenDART...'' empty_world)) \<and>
   get_listed_corp_codes sample_lib
       (serving \<lparr>status_code = 404, chunks = [], stream_error = None\<rparr>)
       ''key'' ''data/raw'' empty_world =
     (Inr [],
      py_print ''Error fetching corporation codes: 404 Error''
        (py_print ''Fetching all corporation codes from OpenDART...'' empty_world)) \<and>
   get_listed_corp_codes sample_lib (serving (ok_response [''<html>'', ''denied'']))
       ''key'' ''data/raw'' empty_world =
     (Inr [],
      py_print
        ''Error: Downloaded file is not a valid zip file. Check API key or response content.''
        (write_file ''data/raw/dart_corp_data/CORPCODE.zip'' ''<html>denied''
           (mkdirs ''data/raw/dart_corp_data''
              (py_print ''Fetching all corporation codes from OpenDART...'' empty_world)))) \<and>
   get_listed_corp_codes sample_lib (serving (ok_response [''PKgar'', ''bled'']))
       ''key'' ''data/raw'' empty_world =
     (Inr [],
      py_print ''Error parsing CORPCODE.xml: unclosed token: line 1, column 0''
        (py_print ''CORPCODE.xml extracted to data/raw/dart_corp_data/CORPCODE.xml''
           (write_file ''data/raw/dart_corp_data/CORPCODE.xml'' ''<result''
              (write_file ''data/raw/dart_corp_data/CORPCODE.zip'' ''PKgarbled''
                 (mkdirs ''data/raw/dart_corp_data''
                    (py_print ''Fetching all corporation codes from OpenDART...''
                       empty_world)))))) \<and>
   get_listed_corp_codes sample_lib (read_only (ok_response [''PKdir'', ''ectory'']))
       ''key'' ''data/raw'' empty_world =
     (Inl (OSError ''[Errno 13] Permission denied''),
      py_print ''Fetching all corporation codes from OpenDART...'' empty_world)"
proof (intro conjI)
  note defs = raise_for_status_def os_makedirs_def url_code_def corp_data_path_def
    xml_zip_path_def xml_path_def path_join_def ok_response_def sample_lib_def
  show "get_listed_corp_codes sample_lib unreachable ''key'' ''data/raw'' empty_world =
     (Inr [],
      py_print ''Error fetching corporation codes: Connection refused''
        (py_print ''Fetching all corporation codes from OpenDART...'' empty_world))"
    using get_listed_corp_codes_handled_failures
            [of unreachable "''key''" sample_lib "''data/raw''" empty_world]
    by (simp add: unreachable_def)
  show "get_listed_corp_codes sample_lib
       (serving \<lparr>status_code = 404, chunks = [], stream_error = None\<rparr>)
       ''key'' ''data/raw'' empty_world =
     (Inr [],
      py_print ''Error fetching corporation codes: 404 Error''
        (py_print ''Fetching all corporation codes from OpenDART...'' empty_world))"
    using get_listed_corp_codes_handled_failures
            [of "serving \<lparr>status_code = 404, chunks = [], stream_error = None\<rparr>" "''key''"
                sample_lib "''data/raw''" empty_world]
    by (simp add: serving_def raise_for_status_def str_nat.simps)
  show "get_listed_corp_codes sample_lib (serving (ok_response [''<html>'', ''denied'']))
       ''key'' ''data/raw'' empty_world =
     (Inr [],
      py_print
        ''Error: Downloaded file is not a valid zip file. Check API key or response content.''
        (write_file ''data/raw/dart_corp_data/CORPCODE.zip'' ''<html>denied''
           (mkdirs ''data/raw/dart_corp_data''
              (py_print ''Fetching all corporation codes from OpenDART...'' empty_world))))"
    using get_listed_corp_codes_handled_failures
            [of "serving (ok_response [''<html>'', ''denied''])" "''key''"
                sample_lib "''data/raw''" empty_world]
    by (simp add: serving_def defs)
  show "get_listed_corp_codes sample_lib (serving (ok_response [''PKgar'', ''bled'']))
       ''key'' ''data/raw'' empty_world =
     (Inr [],
      py_print ''Error parsing CORPCODE.xml: unclosed token: line 1, column 0''
        (py_print ''CORPCODE.xml extracted to data/raw/dart_corp_data/CORPCODE.xml''
           (write_file ''data/raw/dart_corp_data/CORPCODE.xml'' ''<result''
              (write_file ''data/raw/dart_corp_data/CORPCODE.zip'' ''PKgarbled''
                 (mkdirs ''data/raw/dart_corp_data''
                    (py_print ''Fetching all corporation codes from OpenDART...''
                       empty_world))))))"
    using get_listed_corp_codes_handled_failures
            [of "serving (ok_response [''PKgar'', ''bled''])" "''key''"
                sample_lib "''data/raw''" empty_world]
    by (simp add: serving_def defs)
  show "get_listed_corp_codes sample_lib (read_only (ok_response [''PKdir'', ''ectory'']))
       ''key'' ''data/raw'' empty_world =
     (Inl (OSError ''[Errno 13] Permission denied''),
      py_print ''Fetching all corporation codes from OpenDART...'' empty_world)"
    using get_listed_corp_codes_handled_failures
            [of "read_only (ok_response [''PKdir'', ''ectory''])" "''key''"
                sample_lib "''data/raw''" empty_world]
    by (simp add: read_only_def defs)
qed

subsection \<open>Running get_listed_corp_codes again\<close>

lemma save_df_to_csv_effect:
  "\<exists>R D. \<forall>w. fst (save_df_to_csv l e df p index w) = R \<and>
              files (snd (save_df_to_csv l e df p index w)) = files w ++ D"
proof (cases "os_makedirs e (dirname p)")
  case (Some x)
  then have "\<forall>w. fst (save_df_to_csv l e df p index w) = Inl x \<and>
                files (snd (save_df_to_csv l e df p index w)) = files w ++ Map.empty"
    by (simp add: save_df_to_csv_def)
  then show ?thesis by blast
next
  case None
  show ?thesis
  proof (cases "open_error e p")
    case (Some x)
    with None have "\<forall>w. fst (save_df_to_csv l e df p index w) = Inr () \<and>
                files (snd (save_df_to_csv l e df p index w)) = files w ++ Map.empty"
      by (simp add: save_df_to_csv_def to_csv_after_mkdirs)
    then show ?thesis by blast
  next
    case op: None
    obtain t err where c: "csv_text l df index = (t, err)"
      by (cases "csv_text l df index")
    with None op have "\<forall>w. fst (save_df_to_csv l e df p index w) = Inr () \<and>
                files (snd (save_df_to_csv l e df p index w)) = files w ++ [p \<mapsto> t]"
      by (cases err) (simp_all add: save_df_to_csv_def to_csv_after_mkdirs)
    then show ?thesis by blast
  qed
qed

lemma finish_listed_effect:
  "\<exists>R D. \<forall>w. fst (finish_listed l e out root w) = R \<and>
              files (snd (finish_listed l e out root w)) = files w ++ D"
proof -
  let ?df = "collect_listed (findall root ''list'') []"
  obtain R D where s: "\<And>w. fst (save_df_to_csv l e ?df (listed_filepath out) False w) = R"
      "\<And>w. files (snd (save_df_to_csv l e ?df (listed_filepath out) False w)) = files w ++ D"
    using save_df_to_csv_effect [of l e ?df "listed_filepath out" False] by blast
  have "\<forall>w. fst (finish_listed l e out root w) = (case R of Inl x \<Rightarrow> Inl x | Inr _ \<Rightarrow> Inr ?df) \<and>
             files (snd (finish_listed l e out root w)) = files w ++ D"
  proof
    fix w
    obtain r w' where p: "save_df_to_csv l e ?df (listed_filepath out) False w = (r, w')"
      by (cases "save_df_to_csv l e ?df (listed_filepath out) False w")
    from p s(1) [of w] s(2) [of w] have "r = R" "files w' = files w ++ D"
      by simp_all
    with p show "fst (finish_listed l e out root w) = (case R of Inl x \<Rightarrow> Inl x | Inr _ \<Rightarrow> Inr ?df) \<and>
             files (snd (finish_listed l e out root w)) = files w ++ D"
      by (simp add: finish_listed_def Let_def split: sum.splits)
  qed
  then show ?thesis by blast
qed

lemma parse_listed_effect:
  "\<exists>R D. \<forall>w. files w (xml_path out) = Some doc \<longrightarrow>
              fst (parse_listed l e out w) = R \<and>
              files (snd (parse_listed l e out w)) = files w ++ D"
proof (cases "et_parse l doc")
  case (Inl x)
  then have "\<forall>w. files w (xml_path out) = Some doc \<longrightarrow>
              fst (parse_listed l e out w) = (if is_ParseError x then Inr [] else Inl x) \<and>
              files (snd (parse_listed l e out w)) = files w ++ Map.empty"
    by (simp add: parse_listed_def)
  then show ?thesis by blast
next
  case (Inr root)
  obtain R D where "\<And>w. fst (finish_listed l e out root w) = R"
      "\<And>w. files (snd (finish_listed l e out root w)) = files w ++ D"
    using finish_listed_effect [of l e out root] by blast
  with Inr have "\<forall>w. files w (xml_path out) = Some doc \<longrightarrow>
              fst (parse_listed l e out w) = R \<and>
              files (snd (parse_listed l e out w)) = files w ++ D"
    by (simp add: parse_listed_def)
  then show ?thesis by blast
qed

lemma extract_listed_effect:
  "\<exists>R D. \<forall>w. files w (xml_zip_path out) = Some archive \<and>
                  is_dir w (dirname (xml_path out)) \<longrightarrow>
              fst (extract_listed l e out w) = R \<and>
              files (snd (extract_listed l e out w)) = files w ++ D"
proof -
  let ?ex = "case unzip_member l archive ''CORPCODE.xml'' of
               Inl x \<Rightarrow> Inl x
             | Inr doc \<Rightarrow> (case open_error e (xml_path out) of Some x \<Rightarrow> Inl x | None \<Rightarrow> Inr doc)"
  show ?thesis
  proof (cases ?ex)
    case (Inl x)
    have "\<forall>w. files w (xml_zip_path out) = Some archive \<and>
                  is_dir w (dirname (xml_path out)) \<longrightarrow>
              fst (extract_listed l e out w) = (if is_BadZipFile x then Inr [] else Inl x) \<and>
              files (snd (extract_listed l e out w)) = files w ++ Map.empty"
    proof (intro allI impI)
      fix w :: world
      assume a: "files w (xml_zip_path out) = Some archive \<and>
                 is_dir w (dirname (xml_path out))"
      then have ow: "open_w e (xml_path out) w = open_error e (xml_path out)"
        by (simp add: open_w_dir)
      show "fst (extract_listed l e out w) = (if is_BadZipFile x then Inr [] else Inl x) \<and>
              files (snd (extract_listed l e out w)) = files w ++ Map.empty"
        using a Inl
        by (simp add: extract_listed_def Let_def ow split: sum.splits option.splits)
    qed
    then show ?thesis by blast
  next
    case (Inr doc)
    obtain R D where p: "\<And>w. files w (xml_path out) = Some doc \<Longrightarrow>
                           fst (parse_listed l e out w) = R"
        "\<And>w. files w (xml_path out) = Some doc \<Longrightarrow>
               files (snd (parse_listed l e out w)) = files w ++ D"
      using parse_listed_effect [of out doc l e] by blast
    have "\<forall>w. files w (xml_zip_path out) = Some archive \<and>
                is_dir w (dirname (xml_path out)) \<longrightarrow>
              fst (extract_listed l e out w) = R \<and>
              files (snd (extract_listed l e out w)) = files w ++ ([xml_path out \<mapsto> doc] ++ D)"
    proof (intro allI impI)
      fix w :: world
      assume a: "files w (xml_zip_path out) = Some archive \<and>
                 is_dir w (dirname (xml_path out))"
      let ?w' = "py_print (''CORPCODE.xml extracted to '' @ xml_path out)
                   (write_file (xml_path out) doc w)"
      have f: "files ?w' (xml_path out) = Some doc" by simp
      have "extract_listed l e out w = parse_listed l e out ?w'"
        using a Inr
        by (simp add: extract_listed_def Let_def open_w_dir split: sum.splits option.splits)
      moreover have "files ?w' = files w ++ [xml_path out \<mapsto> doc]" by simp
      ultimately show "fst (extract_listed l e out w) = R \<and>
              files (snd (extract_listed l e out w)) = files w ++ ([xml_path out \<mapsto> doc] ++ D)"
        using p(1) [OF f] p(2) [OF f] by (simp only: map_add_assoc)
    qed
    then show ?thesis by blast
  qed
qed


lemma get_listed_corp_codes_effect:
  "\<exists>R D. \<forall>w. fst (get_listed_corp_codes l e k out w) = R \<and>
              files (snd (get_listed_corp_codes l e k out w)) = files w ++ D"
proof -
  let ?fetched = "case requests_get e (url_code k) of
                    Inl x \<Rightarrow> Inl x
                  | Inr r \<Rightarrow> (case raise_for_status r of Some x \<Rightarrow> Inl x | None \<Rightarrow> Inr r)"
  let ?zip = "xml_zip_path out"
  show ?thesis
  proof (cases ?fetched)
    case (Inl x)
    then have "\<forall>w. fst (get_listed_corp_codes l e k out w)
                    = (if is_RequestException x then Inr [] else Inl x) \<and>
                  files (snd (get_listed_corp_codes l e k out w)) = files w ++ Map.empty"
      by (simp add: get_listed_corp_codes_def Let_def)
    then show ?thesis by blast
  next
    case fetched: (Inr r)
    show ?thesis
    proof (cases "os_makedirs e (corp_data_path out)")
      case (Some x)
      with fetched have "\<forall>w. fst (get_listed_corp_codes l e k out w) = Inl x \<and>
                  files (snd (get_listed_corp_codes l e k out w)) = files w ++ Map.empty"
        by (simp add: get_listed_corp_codes_def Let_def)
      then show ?thesis by blast
    next
      case mk: None
      show ?thesis
      proof (cases "open_error e ?zip")
        case (Some x)
        with fetched mk have "\<forall>w. fst (get_listed_corp_codes l e k out w) = Inl x \<and>
                  files (snd (get_listed_corp_codes l e k out w)) = files w ++ Map.empty"
          by (simp add: get_listed_corp_codes_def Let_def download_eq
                open_w_dir [OF is_dir_xml_zip_path])
        then show ?thesis by blast
      next
        case op: None
        show ?thesis
        proof (cases "stream_error r")
          case (Some x)
          with fetched mk op have "\<forall>w. fst (get_listed_corp_codes l e k out w) = Inl x \<and>
                  files (snd (get_listed_corp_codes l e k out w))
                    = files w ++ [?zip \<mapsto> concat (chunks r)]"
            by (simp add: get_listed_corp_codes_def Let_def download_eq
                open_w_dir [OF is_dir_xml_zip_path])
          then show ?thesis by blast
        next
          case se: None
          obtain R D where p:
            "\<And>w. files w ?zip = Some (concat (chunks r)) \<Longrightarrow>
                   is_dir w (dirname (xml_path out)) \<Longrightarrow>
                   fst (extract_listed l e out w) = R"
            "\<And>w. files w ?zip = Some (concat (chunks r)) \<Longrightarrow>
                   is_dir w (dirname (xml_path out)) \<Longrightarrow>
                   files (snd (extract_listed l e out w)) = files w ++ D"
            using extract_listed_effect [of out "concat (chunks r)" l e] by blast
          have "\<forall>w. fst (get_listed_corp_codes l e k out w) = R \<and>
                  files (snd (get_listed_corp_codes l e k out w))
                    = files w ++ ([?zip \<mapsto> concat (chunks r)] ++ D)"
          proof
            fix w :: world
            let ?w' = "write_file ?zip (concat (chunks r))
                         (mkdirs (corp_data_path out)
                            (py_print ''Fetching all corporation codes from OpenDART...'' w))"
            have f: "files ?w' ?zip = Some (concat (chunks r))" by simp
            have g: "is_dir ?w' (dirname (xml_path out))"
              by (simp add: is_dir_xml_path)
            have "get_listed_corp_codes l e k out w = extract_listed l e out ?w'"
              using fetched mk op se
              by (simp add: get_listed_corp_codes_def Let_def download_eq
                open_w_dir [OF is_dir_xml_zip_path])
            moreover have "files ?w' = files w ++ [?zip \<mapsto> concat (chunks r)]" by simp
            ultimately show "fst (get_listed_corp_codes l e k out w) = R \<and>
                  files (snd (get_listed_corp_codes l e k out w))
                    = files w ++ ([?zip \<mapsto> concat (chunks r)] ++ D)"
              using p(1) [OF f g] p(2) [OF f g] by (simp only: map_add_assoc)
          qed
          then show ?thesis by blast
        qed
      qed
    qed
  qed
qed

lemma extract_listed_env:
  assumes "mkdir_error e2 = mkdir_error e1" and "open_error e2 = open_error e1"
  shows "extract_listed l e2 out w = extract_listed l e1 out w"
  unfolding extract_listed_def parse_listed_def finish_listed_def save_df_to_csv_def to_csv_def
    os_makedirs_def open_w_def assms ..

lemma get_listed_corp_codes_env:
  assumes "same_answer (requests_get e2 (url_code k2)) (requests_get e1 (url_code k1))"
    and "mkdir_error e2 = mkdir_error e1"
    and "open_error e2 = open_error e1"
  shows "get_listed_corp_codes l e2 k2 out w = get_listed_corp_codes l e1 k1 out w"
proof (cases "requests_get e1 (url_code k1)")
  case (Inl x)
  with assms(1) have "requests_get e2 (url_code k2) = Inl x"
    by (auto simp: same_answer_def split: sum.splits)
  with Inl show ?thesis
    by (simp add: get_listed_corp_codes_def)
next
  case (Inr r)
  with assms(1) obtain s where s: "requests_get e2 (url_code k2) = Inr s"
      "status_code s = status_code r" "concat (chunks s) = concat (chunks r)"
      "stream_error s = stream_error r"
    by (auto simp: same_answer_def split: sum.splits)
  have st: "raise_for_status s = raise_for_status r"
    by (simp add: raise_for_status_def s(2))
  have dl: "download e2 s p v = download e1 r p v" for p v
    by (simp add: download_eq s(3,4) assms(3) open_w_def cong: option.case_cong)
  have mk: "os_makedirs e2 = os_makedirs e1"
    by (simp add: fun_eq_iff os_makedirs_def assms(2))
  show ?thesis
    by (cases "raise_for_status r")
       (simp_all add: get_listed_corp_codes_def Let_def Inr s(1) st dl mk
          extract_listed_env [OF assms(2,3)]
          split: option.splits prod.splits sum.splits)
qed

text \<open>
  C8. Two runs of \<open>get_listed_corp_codes\<close> with the same output directory, against a
  server that gives the same answer (the same bytes, in whatever chunks) and a disk that
  behaves the same, have the same outcome (the same table, or the same exception), whatever
  the world each starts from and whatever the key; and the second run, started in the world
  that the first one left, leaves every file (the archive, the document and the saved
  table) with the content it had.
\<close>

theorem get_listed_corp_codes_rerun:
  assumes "same_answer (requests_get e2 (url_code k2)) (requests_get e1 (url_code k1))"
    and "mkdir_error e2 = mkdir_error e1"
    and "open_error e2 = open_error e1"
  shows "fst (get_listed_corp_codes l e2 k2 output_dir w2)
           = fst (get_listed_corp_codes l e1 k1 output_dir w1) \<and>
         files (snd (get_listed_corp_codes l e2 k2 output_dir
                       (snd (get_listed_corp_codes l e1 k1 output_dir w1))))
           = files (snd (get_listed_corp_codes l e1 k1 output_dir w1))"
proof -
  obtain R D where p: "\<And>w. fst (get_listed_corp_codes l e1 k1 output_dir w) = R"
      "\<And>w. files (snd (get_listed_corp_codes l e1 k1 output_dir w)) = files w ++ D"
    using get_listed_corp_codes_effect [of l e1 k1 output_dir] by blast
  have q: "\<And>w. get_listed_corp_codes l e2 k2 output_dir w
                 = get_listed_corp_codes l e1 k1 output_dir w"
    using assms by (rule get_listed_corp_codes_env)
  have "(files w1 ++ D) ++ D = files w1 ++ D"
    by (rule ext) (simp add: map_add_def split: option.splits)
  then show ?thesis
    by (simp add: q p)
qed

lemma first_run_csv:
  "files (snd (get_listed_corp_codes sample_lib (serving (ok_response [''PKdir'', ''ectory'']))
                 ''key'' ''data/raw'' empty_world)) ''data/raw/listed_corp_codes.csv''
     = Some (''00126380,Samsung,Samsung,005930,;00164779,Hynix,Hynix,000660,;''
              @ ''00164742,Hyundai,Hyundai,005380,;'')"
  by (simp add: get_listed_corp_codes_def download_eq extract_listed_def parse_listed_def
        finish_listed_def save_df_to_csv_def to_csv_def collect_listed_filter
        ticker_retained_def findall_def findtext_def listed_record_def sample_root_def
        corp_element_def fmt_def Let_def example_defs)

theorem get_listed_corp_codes_rerun_witness:
  "fst (get_listed_corp_codes sample_lib (serving (ok_response [''PKdirectory'']))
          ''renewed key'' ''data/raw''
          (snd (get_listed_corp_codes sample_lib (serving (ok_response [''PKdir'', ''ectory'']))
                  ''key'' ''data/raw'' empty_world)))
     = fst (get_listed_corp_codes sample_lib (serving (ok_response [''PKdir'', ''ectory'']))
              ''key'' ''data/raw'' empty_world) \<and>
   files (snd (get_listed_corp_codes sample_lib (serving (ok_response [''PKdirectory'']))
                 ''renewed key'' ''data/raw''
                 (snd (get_listed_corp_codes sample_lib
                         (serving (ok_response [''PKdir'', ''ectory'']))
                         ''key'' ''data/raw'' empty_world)))) ''data/raw/listed_corp_codes.csv''
     = Some (''00126380,Samsung,Samsung,005930,;00164779,Hynix,Hynix,000660,;''
              @ ''00164742,Hyundai,Hyundai,005380,;'')"
proof -
  have a: "same_answer
             (requests_get (serving (ok_response [''PKdirectory''])) (url_code ''renewed key''))
             (requests_get (serving (ok_response [''PKdir'', ''ectory''])) (url_code ''key''))"
    by (simp add: same_answer_def serving_def ok_response_def)
  have m: "mkdir_error (serving (ok_response [''PKdirectory'']))
             = mkdir_error (serving (ok_response [''PKdir'', ''ectory'']))"
    and o: "open_error (serving (ok_response [''PKdirectory'']))
             = open_error (serving (ok_response [''PKdir'', ''ectory'']))"
    by (simp_all add: serving_def)
  show ?thesis
    using get_listed_corp_codes_rerun
            [OF a m o, of sample_lib "''data/raw''"
               "snd (get_listed_corp_codes sample_lib
                      (serving (ok_response [''PKdir'', ''ectory''])) ''key'' ''data/raw''
                      empty_world)"
               empty_world]
      first_run_csv
    by simp
qed

end
